theory Spec2Isabelle
  imports Main
begin

section \<open>Python values, strings and exceptions\<close>

text \<open>
  The embedding follows \<^verbatim>\<open>src/api_clients/repo_client.py\<close>. A Python \<^verbatim>\<open>str\<close> is a
  \<^typ>\<open>string\<close> (characters with code points below 256); a Python value that reaches the
  client from outside (the \<^verbatim>\<open>description\<close> argument, a field of a decoded JSON payload)
  is a \<open>pyval\<close>. A value that is neither \<^verbatim>\<open>None\<close>, a \<^verbatim>\<open>bool\<close>, an \<^verbatim>\<open>int\<close> nor a
  \<^verbatim>\<open>str\<close> (a float, a list, a nested dict) is \<open>POther\<close>, carrying the text that
  \<^verbatim>\<open>str()\<close> gives for it, which is all the client ever does with such a value.
\<close>

datatype pyval = PNone | PBool bool | PInt int | PStr string | POther string

text \<open>
  Exceptions as values. \<open>ValidationError\<close> and \<open>GitHubAPIError\<close> are the two classes the
  client declares (lines 11-19), the second with its optional \<^verbatim>\<open>status_code\<close>. The other
  constructors are the built-in exceptions that the statements of the client can raise:
  \<open>IndexError\<close> (indexing a string), \<open>KeyError\<close> (subscripting a dict), \<open>TypeError\<close>
  (subscripting a value that is not a dict), \<open>AttributeError\<close> (calling a method that the
  value does not have), and the two exceptions of \<^verbatim>\<open>Response.json()\<close>:
  \<open>JSONDecodeError\<close> is \<^verbatim>\<open>requests.exceptions.JSONDecodeError\<close>, a \<^verbatim>\<open>RequestException\<close>,
  and \<open>ValueError\<close> is the plain decoding error of older releases of the library.
  \<open>OtherException\<close> is an exception raised by the call \<^verbatim>\<open>requests.get/post/patch/delete\<close>
  itself that is not a \<^verbatim>\<open>RequestException\<close>, named by its class (for example
  \<^verbatim>\<open>LocationParseError\<close> of the underlying HTTP library, for a malformed host name).
\<close>

datatype error =
    ValidationError string
  | GitHubAPIError string "int option"
  | IndexError
  | KeyError string
  | TypeError
  | AttributeError
  | JSONDecodeError string
  | ValueError
  | OtherException string

text \<open>The two kinds of the client's own taxonomy (subclasses of \<^verbatim>\<open>RepoClientError\<close>).\<close>

fun is_validation_error :: "error \<Rightarrow> bool" where
  "is_validation_error (ValidationError m) = True"
| "is_validation_error e = False"

fun is_github_api_error :: "error \<Rightarrow> bool" where
  "is_github_api_error (GitHubAPIError m s) = True"
| "is_github_api_error e = False"

definition is_repo_client_error :: "error \<Rightarrow> bool" where
  "is_repo_client_error e = (is_validation_error e \<or> is_github_api_error e)"

text \<open>Decimal text of a natural number and of an integer, as \<^verbatim>\<open>str(n)\<close> gives it.\<close>

definition digit_char :: "nat \<Rightarrow> char" where
  "digit_char d = ''0123456789'' ! d"

fun str_nat :: "nat \<Rightarrow> string" where
  "str_nat n = (if n < 10 then [digit_char n] else str_nat (n div 10) @ [digit_char (n mod 10)])"

definition str_int :: "int \<Rightarrow> string" where
  "str_int i = (if i < 0 then CHR ''-'' # str_nat (nat (- i)) else str_nat (nat i))"

text \<open>What an f-string interpolates for a value: \<^verbatim>\<open>str(v)\<close>.\<close>

fun py_str :: "pyval \<Rightarrow> string" where
  "py_str PNone = ''None''"
| "py_str (PBool b) = (if b then ''True'' else ''False'')"
| "py_str (PInt i) = str_int i"
| "py_str (PStr s) = s"
| "py_str (POther s) = s"

text \<open>
  An \<^verbatim>\<open>Optional[str]\<close> is a \<^typ>\<open>string option\<close>. Its truth value, the operator
  \<^verbatim>\<open>or\<close> (the left operand when it is true, the right one otherwise) and its
  interpolation in an f-string.
\<close>

fun truthy :: "string option \<Rightarrow> bool" where
  "truthy None = False"
| "truthy (Some s) = (s \<noteq> [])"

definition py_or :: "string option \<Rightarrow> string option \<Rightarrow> string option" where
  "py_or a b = (if truthy a then a else b)"

fun str_opt :: "string option \<Rightarrow> string" where
  "str_opt None = ''None''"
| "str_opt (Some s) = s"

text \<open>
  Indexing a string, \<^verbatim>\<open>s[i]\<close>: a negative index counts from the end, and an index out of
  range raises \<^verbatim>\<open>IndexError\<close>.
\<close>

definition py_index :: "string \<Rightarrow> int \<Rightarrow> error + char" where
  "py_index s i =
     (let n = int (length s); j = (if i < 0 then i + n else i)
      in if 0 \<le> j \<and> j < n then Inr (s ! nat j) else Inl IndexError)"

section \<open>Name validation\<close>

text \<open>
  \<^verbatim>\<open>REPO_NAME_PATTERN = r'^[a-zA-Z0-9_.-]+$'\<close> and \<^verbatim>\<open>MAX_REPO_NAME_LENGTH = 100\<close>
  (lines 29-30). \<open>in_class\<close> is the character class \<^verbatim>\<open>[a-zA-Z0-9_.-]\<close>.
\<close>

definition MAX_REPO_NAME_LENGTH :: nat where
  "MAX_REPO_NAME_LENGTH = 100"

definition in_class :: "char \<Rightarrow> bool" where
  "in_class c =
     (let n = (of_char c :: nat)
      in (97 \<le> n \<and> n \<le> 122) \<or> (65 \<le> n \<and> n \<le> 90) \<or> (48 \<le> n \<and> n \<le> 57)
         \<or> c = CHR ''_'' \<or> c = CHR ''.'' \<or> c = CHR ''-'')"

text \<open>
  \<^verbatim>\<open>re.match(REPO_NAME_PATTERN, repo_name)\<close>, with no flags. \<^verbatim>\<open>^\<close> holds at position 0,
  where \<^verbatim>\<open>re.match\<close> starts. The greedy \<^verbatim>\<open>[...]+\<close> may stop after any number \<open>n \<ge> 1\<close> of
  the leading characters of the class, the longest first. \<^verbatim>\<open>$\<close> without
  \<^verbatim>\<open>re.MULTILINE\<close> holds at the end of the string and also just before a newline that is
  the last character of the string.
\<close>

definition dollar_at :: "string \<Rightarrow> nat \<Rightarrow> bool" where
  "dollar_at s i = (i = length s \<or> (Suc i = length s \<and> s ! i = CHR 0x0A))"

definition re_match_REPO_NAME_PATTERN :: "string \<Rightarrow> bool" where
  "re_match_REPO_NAME_PATTERN s =
     list_ex (dollar_at s) (rev [1 ..< Suc (length (takeWhile in_class s))])"

definition msg_empty :: string where
  "msg_empty = ''Repository name cannot be empty.''"

definition msg_too_long :: "string \<Rightarrow> string" where
  "msg_too_long repo_name =
     ''Repository name cannot exceed '' @ str_nat MAX_REPO_NAME_LENGTH @ '' characters. ''
     @ ''Got '' @ str_nat (length repo_name) @ '' characters.''"

definition msg_characters :: string where
  "msg_characters =
     ''Repository name can only contain alphanumeric characters, '-', '_', and '.'' @ [CHR 0x27]"

definition msg_boundary :: string where
  "msg_boundary = ''Repository name cannot start with '-' or end with '.'' @ [CHR 0x27]"

text \<open>
  The last statement of \<^verbatim>\<open>_validate_repo_name\<close> (line 92) on its own:
  \<^verbatim>\<open>repo_name[0] == '-' or repo_name[-1] == '.'\<close>, with the indexing that can fail and the
  short-circuit of \<^verbatim>\<open>or\<close>.
\<close>

definition boundary_check :: "string \<Rightarrow> error + bool" where
  "boundary_check repo_name =
     (case py_index repo_name 0 of
        Inl e \<Rightarrow> Inl e
      | Inr c0 \<Rightarrow>
          if c0 = CHR ''-'' then Inr True
          else (case py_index repo_name (- 1) of
                  Inl e \<Rightarrow> Inl e
                | Inr cl \<Rightarrow> Inr (cl = CHR ''.'')))"

text \<open>\<^verbatim>\<open>_validate_repo_name\<close> (lines 69-93): \<open>Inr ()\<close> is the normal return.\<close>

definition validate_repo_name :: "string \<Rightarrow> error + unit" where
  "validate_repo_name repo_name =
     (if repo_name = [] then Inl (ValidationError msg_empty)
      else if length repo_name > MAX_REPO_NAME_LENGTH
        then Inl (ValidationError (msg_too_long repo_name))
      else if \<not> re_match_REPO_NAME_PATTERN repo_name
        then Inl (ValidationError msg_characters)
      else (case boundary_check repo_name of
              Inl e \<Rightarrow> Inl e
            | Inr b \<Rightarrow> if b then Inl (ValidationError msg_boundary) else Inr ()))"

section \<open>The remote service\<close>

text \<open>
  The library \<^verbatim>\<open>requests\<close> and the remote service are the environment. A call
  \<^verbatim>\<open>requests.get/post/patch/delete(url, headers=..., json=..., timeout=10)\<close> is a
  \<open>request\<close>; the environment answers it with an \<open>outcome\<close>: the call raises a
  \<^verbatim>\<open>RequestException\<close> (a connection failure, a timeout), given by \<^verbatim>\<open>str(e)\<close> and
  \<^verbatim>\<open>e.response\<close>, or it raises an exception of another class, given by the name of the
  class, or it returns a response. Of a response the client reads
  \<^verbatim>\<open>status_code\<close>, the text of the \<^verbatim>\<open>HTTPError\<close> that \<^verbatim>\<open>raise_for_status()\<close> raises for
  it, and \<^verbatim>\<open>json()\<close>, which returns a dict, returns another JSON value, or raises.
\<close>

datatype json_result =
    Decoded_dict "(string \<times> pyval) list"
  | Decoded_other
  | Decode_RequestException string
  | Decode_ValueError

record response =
  status_code :: int
  http_error_text :: string
  json :: json_result

datatype outcome =
    Raises string "response option"
  | Raises_other string
  | Returns response

datatype http_method = GET | POST | PATCH | DELETE

record request =
  verb :: http_method
  url :: string
  headers :: "(string \<times> string) list"
  json_payload :: "(string \<times> pyval) list option"
  timeout :: nat

type_synonym network = "request \<Rightarrow> outcome"

text \<open>
  The two statements at the head of every \<^verbatim>\<open>try\<close> block: the call, then
  \<^verbatim>\<open>response.raise_for_status()\<close>, which raises \<^verbatim>\<open>HTTPError\<close> (a \<^verbatim>\<open>RequestException\<close>
  holding the response) for a status from 400 to 599. What the two statements raise is
  a \<open>raised\<close>: \<open>RequestException m r\<close> is a \<^verbatim>\<open>RequestException e\<close> with
  \<^verbatim>\<open>str(e) = m\<close> and \<^verbatim>\<open>e.response = r\<close>, which the clause \<^verbatim>\<open>except RequestException\<close>
  catches; \<open>NotRequestException c\<close> is an exception of another class \<open>c\<close>, which that
  clause does not catch.
\<close>

datatype raised = RequestException string "response option" | NotRequestException string

definition send :: "network \<Rightarrow> request \<Rightarrow> raised + response" where
  "send net rq =
     (case net rq of
        Raises m r \<Rightarrow> Inl (RequestException m r)
      | Raises_other c \<Rightarrow> Inl (NotRequestException c)
      | Returns r \<Rightarrow>
          if 400 \<le> status_code r \<and> status_code r < 600
          then Inl (RequestException (http_error_text r) (Some r))
          else Inr r)"

text \<open>
  \<^verbatim>\<open>getattr(e.response, 'status_code', None) if hasattr(e, 'response') else None\<close>: every
  \<^verbatim>\<open>RequestException\<close> has the attribute \<^verbatim>\<open>response\<close>, which may be \<^verbatim>\<open>None\<close>.
\<close>

fun status_of :: "response option \<Rightarrow> int option" where
  "status_of None = None"
| "status_of (Some r) = Some (status_code r)"

section \<open>The client\<close>

text \<open>
  \<^verbatim>\<open>GITHUB_TOKEN\<close> and \<^verbatim>\<open>BASE_URL\<close> are imported from the module \<^verbatim>\<open>config\<close> (line 4),
  which lies outside the client's file: they are parameters, each a string or \<^verbatim>\<open>None\<close>.
\<close>

record config =
  GITHUB_TOKEN :: "string option"
  BASE_URL :: "string option"

record client =
  self_token :: "string option"
  self_base_url :: "string option"
  self_headers :: "(string \<times> string) list"
  self_username :: pyval

definition msg_token_required :: string where
  "msg_token_required =
     ''GitHub token is required. Set GITHUB_TOKEN environment variable or pass token parameter.''"

definition msg_invalid_token :: string where
  "msg_invalid_token = ''Invalid GitHub token. Please check your credentials.''"

definition make_headers :: "string option \<Rightarrow> (string \<times> string) list" where
  "make_headers tok =
     [(''Authorization'', ''token '' @ str_opt tok),
      (''Accept'', ''application/vnd.github.v3+json'')]"

definition user_request :: "string option \<Rightarrow> string option \<Rightarrow> request" where
  "user_request tok base =
     \<lparr>verb = GET, url = str_opt base @ ''/user'', headers = make_headers tok,
      json_payload = None, timeout = 10\<rparr>"

text \<open>The \<^verbatim>\<open>except RequestException\<close> handler of the constructor (lines 63-67).\<close>

definition init_handler :: "string \<Rightarrow> response option \<Rightarrow> error" where
  "init_handler m r =
     (let status_code = status_of r
      in if status_code = Some 401 then GitHubAPIError msg_invalid_token (Some 401)
         else GitHubAPIError (''Failed to authenticate with GitHub: '' @ m) status_code)"

text \<open>
  \<^verbatim>\<open>RepoClient.__init__\<close> (lines 32-67). The result is the constructed client or the
  exception raised, together with the requests issued, in order.
  \<^verbatim>\<open>user_response.json()['login']\<close> is inside the \<^verbatim>\<open>try\<close> block: a \<^verbatim>\<open>RequestException\<close>
  raised by \<^verbatim>\<open>json()\<close> (it carries no response) reaches the handler, any other exception
  leaves the constructor as it is, and so does an exception of another class raised by
  the call.
\<close>

definition init :: "config \<Rightarrow> network \<Rightarrow> string option \<Rightarrow> string option
    \<Rightarrow> (error + client) \<times> request list" where
  "init cfg net token base_url =
     (let tok = py_or token (GITHUB_TOKEN cfg);
          base = py_or base_url (BASE_URL cfg)
      in if \<not> truthy tok then (Inl (ValidationError msg_token_required), [])
         else
           (let hdrs = make_headers tok;
                rq = user_request tok base
            in (case send net rq of
                  Inl (RequestException m r) \<Rightarrow> Inl (init_handler m r)
                | Inl (NotRequestException c) \<Rightarrow> Inl (OtherException c)
                | Inr user_response \<Rightarrow>
                    (case json user_response of
                       Decoded_dict kvs \<Rightarrow>
                         (case map_of kvs ''login'' of
                            None \<Rightarrow> Inl (KeyError ''login'')
                          | Some v \<Rightarrow>
                              Inr \<lparr>self_token = tok, self_base_url = base,
                                   self_headers = hdrs, self_username = v\<rparr>)
                     | Decoded_other \<Rightarrow> Inl TypeError
                     | Decode_RequestException m \<Rightarrow> Inl (init_handler m None)
                     | Decode_ValueError \<Rightarrow> Inl ValueError),
                [rq])))"

text \<open>\<^verbatim>\<open>isinstance(v, str)\<close>.\<close>

fun isinstance_str :: "pyval \<Rightarrow> bool" where
  "isinstance_str (PStr s) = True"
| "isinstance_str v = False"

definition msg_description :: string where
  "msg_description = ''Description must be a string.''"

definition create_request :: "client \<Rightarrow> string \<Rightarrow> pyval \<Rightarrow> bool \<Rightarrow> request" where
  "create_request self repo_name description private =
     \<lparr>verb = POST, url = str_opt (self_base_url self) @ ''/user/repos'',
      headers = self_headers self,
      json_payload = Some [(''name'', PStr repo_name), (''description'', description),
                           (''private'', PBool private), (''auto_init'', PBool False)],
      timeout = 10\<rparr>"

text \<open>
  The \<^verbatim>\<open>except RequestException\<close> handler of \<^verbatim>\<open>create_repo\<close> (lines 132-140). On status
  422 it evaluates \<^verbatim>\<open>e.response.json().get('message', 'Validation failed')\<close> inside the
  handler, where nothing catches what \<^verbatim>\<open>json()\<close> or \<^verbatim>\<open>.get\<close> raise.
\<close>

definition create_handler :: "string \<Rightarrow> response option \<Rightarrow> error" where
  "create_handler m r =
     (let status_code = status_of r
      in if status_code = Some 422 then
           (case r of
              None \<Rightarrow> AttributeError
            | Some resp \<Rightarrow>
                (case json resp of
                   Decoded_dict kvs \<Rightarrow>
                     (let error_msg = (case map_of kvs ''message'' of
                                         None \<Rightarrow> PStr ''Validation failed''
                                       | Some v \<Rightarrow> v)
                      in GitHubAPIError (''Failed to create repository: '' @ py_str error_msg)
                           (Some 422))
                 | Decoded_other \<Rightarrow> AttributeError
                 | Decode_RequestException m' \<Rightarrow> JSONDecodeError m'
                 | Decode_ValueError \<Rightarrow> ValueError))
         else GitHubAPIError (''Failed to create repository: '' @ m) status_code)"

text \<open>
  \<^verbatim>\<open>create_repo\<close> (lines 95-140). \<^verbatim>\<open>repo_name\<close> is a \<^verbatim>\<open>str\<close> and \<^verbatim>\<open>private\<close> a
  \<^verbatim>\<open>bool\<close>, as annotated; \<^verbatim>\<open>description\<close> is any value, since the code tests its type.
\<close>

definition create_repo :: "client \<Rightarrow> network \<Rightarrow> string \<Rightarrow> pyval \<Rightarrow> bool
    \<Rightarrow> (error + response) \<times> request list" where
  "create_repo self net repo_name description private =
     (case validate_repo_name repo_name of
        Inl e \<Rightarrow> (Inl e, [])
      | Inr u \<Rightarrow>
          if \<not> isinstance_str description then (Inl (ValidationError msg_description), [])
          else
            (let rq = create_request self repo_name description private
             in (case send net rq of
                   Inl (RequestException m r) \<Rightarrow> Inl (create_handler m r)
                 | Inl (NotRequestException c) \<Rightarrow> Inl (OtherException c)
                 | Inr response \<Rightarrow> Inr response,
                 [rq])))"

text \<open>The URL \<^verbatim>\<open>f"{self.base_url}/repos/{self.username}/{repo_name}"\<close>.\<close>

definition repo_url :: "client \<Rightarrow> string \<Rightarrow> string" where
  "repo_url self repo_name =
     str_opt (self_base_url self) @ ''/repos/'' @ py_str (self_username self) @ ''/'' @ repo_name"

definition quoted :: "string \<Rightarrow> string" where
  "quoted s = [CHR 0x27] @ s @ [CHR 0x27]"

text \<open>\<^verbatim>\<open>get_repo\<close> (lines 142-172).\<close>

definition get_repo :: "client \<Rightarrow> network \<Rightarrow> string \<Rightarrow> (error + response) \<times> request list" where
  "get_repo self net repo_name =
     (case validate_repo_name repo_name of
        Inl e \<Rightarrow> (Inl e, [])
      | Inr u \<Rightarrow>
          (let rq = \<lparr>verb = GET, url = repo_url self repo_name, headers = self_headers self,
                     json_payload = None, timeout = 10\<rparr>
           in (case send net rq of
                 Inl (RequestException m r) \<Rightarrow>
                   Inl (GitHubAPIError
                          (''Failed to get repository '' @ quoted repo_name @ '': '' @ m)
                          (status_of r))
               | Inl (NotRequestException c) \<Rightarrow> Inl (OtherException c)
               | Inr response \<Rightarrow> Inr response,
               [rq])))"

text \<open>\<^verbatim>\<open>update_repo\<close> (lines 174-212).\<close>

definition update_repo :: "client \<Rightarrow> network \<Rightarrow> string \<Rightarrow> pyval
    \<Rightarrow> (error + response) \<times> request list" where
  "update_repo self net repo_name new_description =
     (case validate_repo_name repo_name of
        Inl e \<Rightarrow> (Inl e, [])
      | Inr u \<Rightarrow>
          if \<not> isinstance_str new_description
          then (Inl (ValidationError msg_description), [])
          else
            (let rq = \<lparr>verb = PATCH, url = repo_url self repo_name,
                       headers = self_headers self,
                       json_payload = Some [(''description'', new_description)],
                       timeout = 10\<rparr>
             in (case send net rq of
                   Inl (RequestException m r) \<Rightarrow>
                     Inl (GitHubAPIError
                            (''Failed to update repository '' @ quoted repo_name @ '': '' @ m)
                            (status_of r))
                 | Inl (NotRequestException c) \<Rightarrow> Inl (OtherException c)
                 | Inr response \<Rightarrow> Inr response,
                 [rq])))"

text \<open>\<^verbatim>\<open>delete_repo\<close> (lines 214-244).\<close>

definition delete_repo :: "client \<Rightarrow> network \<Rightarrow> string \<Rightarrow> (error + response) \<times> request list" where
  "delete_repo self net repo_name =
     (case validate_repo_name repo_name of
        Inl e \<Rightarrow> (Inl e, [])
      | Inr u \<Rightarrow>
          (let rq = \<lparr>verb = DELETE, url = repo_url self repo_name,
                     headers = self_headers self, json_payload = None, timeout = 10\<rparr>
           in (case send net rq of
                 Inl (RequestException m r) \<Rightarrow>
                   Inl (GitHubAPIError
                          (''Failed to delete repository '' @ quoted repo_name @ '': '' @ m)
                          (status_of r))
               | Inl (NotRequestException c) \<Rightarrow> Inl (OtherException c)
               | Inr response \<Rightarrow> Inr response,
               [rq])))"

section \<open>Auxiliary notions for the statements\<close>

text \<open>A remote service that gives the same outcome to every request.\<close>

definition answers :: "outcome \<Rightarrow> network" where
  "answers out rq = out"

text \<open>
  A remote service that gives one outcome to exactly one request and another outcome to
  every other request.
\<close>

definition answers_only :: "request \<Rightarrow> outcome \<Rightarrow> outcome \<Rightarrow> network" where
  "answers_only rq0 out other rq = (if rq = rq0 then out else other)"

text \<open>\<^verbatim>\<open>json()\<close> returns a dict (a JSON object).\<close>

fun is_json_object :: "json_result \<Rightarrow> bool" where
  "is_json_object (Decoded_dict kvs) = True"
| "is_json_object j = False"

text \<open>
  The payload of an identity answer that the constructor can handle: a JSON object with a
  \<^verbatim>\<open>login\<close> field, or a decoding failure that is a \<^verbatim>\<open>RequestException\<close>.
\<close>

fun identity_payload_ok :: "json_result \<Rightarrow> bool" where
  "identity_payload_ok (Decoded_dict kvs) = (map_of kvs ''login'' \<noteq> None)"
| "identity_payload_ok (Decode_RequestException m) = True"
| "identity_payload_ok j = False"

section \<open>Properties of name validation\<close>

lemma newline_not_in_class: "\<not> in_class (CHR 0x0A)"
  by (simp add: in_class_def)

lemma takeWhile_nth_class: "i < length (takeWhile P s) \<Longrightarrow> P (s ! i)"
  by (metis nth_mem set_takeWhileD takeWhile_nth)

text \<open>
  The pattern matches exactly when the leading run of class characters is not empty and
  is followed by nothing, or by one newline that ends the string: no shorter stop of the
  greedy repetition satisfies \<^verbatim>\<open>$\<close>.
\<close>

lemma re_match_iff:
  "re_match_REPO_NAME_PATTERN s \<longleftrightarrow>
     (let n = length (takeWhile in_class s)
      in 1 \<le> n \<and> (n = length s \<or> (Suc n = length s \<and> s ! n = CHR 0x0A)))"
proof -
  define n where "n = length (takeWhile in_class s)"
  have le: "n \<le> length s" by (simp add: n_def length_takeWhile_le)
  have cls: "\<And>i. i < n \<Longrightarrow> in_class (s ! i)"
    unfolding n_def by (rule takeWhile_nth_class)
  have "re_match_REPO_NAME_PATTERN s \<longleftrightarrow> (\<exists>i. 1 \<le> i \<and> i \<le> n \<and> dollar_at s i)"
    by (auto simp: re_match_REPO_NAME_PATTERN_def list_ex_iff n_def)
  also have "\<dots> \<longleftrightarrow> 1 \<le> n \<and> dollar_at s n"
  proof
    assume "\<exists>i. 1 \<le> i \<and> i \<le> n \<and> dollar_at s i"
    then obtain i where i: "1 \<le> i" "i \<le> n" "dollar_at s i" by blast
    have "i = n"
    proof (rule ccontr)
      assume "i \<noteq> n"
      with i have lt: "i < n" by simp
      from i(3) lt le have "s ! i = CHR 0x0A" by (auto simp: dollar_at_def)
      with cls [OF lt] newline_not_in_class show False by simp
    qed
    with i show "1 \<le> n \<and> dollar_at s n" by simp
  next
    assume "1 \<le> n \<and> dollar_at s n"
    then show "\<exists>i. 1 \<le> i \<and> i \<le> n \<and> dollar_at s i" by blast
  qed
  finally show ?thesis by (simp add: n_def dollar_at_def Let_def)
qed

lemma re_match_all_class:
  assumes "s \<noteq> []" "list_all in_class s"
  shows "re_match_REPO_NAME_PATTERN s"
proof -
  from assms(2) have tw: "takeWhile in_class s = s" by (simp add: list_all_iff)
  show ?thesis by (simp add: re_match_iff tw Suc_le_eq assms(1))
qed

lemma py_index_first: "s \<noteq> [] \<Longrightarrow> py_index s 0 = Inr (hd s)"
  by (simp add: py_index_def hd_conv_nth)

lemma py_index_last: "s \<noteq> [] \<Longrightarrow> py_index s (- 1) = Inr (last s)"
proof -
  assume ne: "s \<noteq> []"
  then have "nat (int (length s) - 1) = length s - 1" by simp
  with ne show ?thesis by (simp add: py_index_def last_conv_nth Let_def)
qed

lemma boundary_check_nonempty:
  "s \<noteq> [] \<Longrightarrow> boundary_check s = Inr (hd s = CHR ''-'' \<or> last s = CHR ''.'')"
  by (simp add: boundary_check_def py_index_first py_index_last)

lemma boundary_check_empty: "boundary_check [] = Inl IndexError"
  by (simp add: boundary_check_def py_index_def)

lemma validate_cases:
  "validate_repo_name s =
     (if s = [] then Inl (ValidationError msg_empty)
      else if length s > 100 then Inl (ValidationError (msg_too_long s))
      else if \<not> re_match_REPO_NAME_PATTERN s then Inl (ValidationError msg_characters)
      else if hd s = CHR ''-'' \<or> last s = CHR ''.'' then Inl (ValidationError msg_boundary)
      else Inr ())"
  by (simp add: validate_repo_name_def MAX_REPO_NAME_LENGTH_def boundary_check_nonempty)

lemma validate_error_kind:
  "validate_repo_name s = Inl e \<Longrightarrow> is_validation_error e"
  by (auto simp: validate_cases split: if_splits)

text \<open>
  C1. Every string of length 1 to 100 whose characters all belong to
  \<^verbatim>\<open>[A-Za-z0-9_.-]\<close>, whose first character is not \<^verbatim>\<open>-\<close> and whose last character is
  not \<^verbatim>\<open>.\<close>, is accepted by \<^verbatim>\<open>_validate_repo_name\<close>: it returns normally.
\<close>

theorem validate_accepts_wellformed:
  assumes "1 \<le> length s" and "length s \<le> 100" and "\<forall>c \<in> set s. in_class c"
    and "hd s \<noteq> CHR ''-''" and "last s \<noteq> CHR ''.''"
  shows "validate_repo_name s = Inr ()"
proof -
  from assms(1) have ne: "s \<noteq> []" by auto
  from assms(3) have "list_all in_class s" by (simp add: list_all_iff)
  with ne have "re_match_REPO_NAME_PATTERN s" by (rule re_match_all_class)
  with ne assms(2,4,5) show ?thesis by (simp add: validate_cases)
qed

theorem validate_accepts_wellformed_witness:
  "1 \<le> length ''test-repo_1.x'' \<and> length ''test-repo_1.x'' \<le> 100
   \<and> list_all in_class ''test-repo_1.x''
   \<and> validate_repo_name ''test-repo_1.x'' = Inr ()"
  using validate_accepts_wellformed [of "''test-repo_1.x''"] by (simp add: in_class_def)

lemma takeWhile_short:
  assumes "\<not> list_all P s"
  shows "length (takeWhile P s) < length s" "\<not> P (s ! length (takeWhile P s))"
proof -
  from assms have "takeWhile P s \<noteq> s" by (simp add: list_all_iff takeWhile_eq_all_conv)
  then show lt: "length (takeWhile P s) < length s"
    by (metis length_takeWhile_le le_neq_implies_less takeWhile_eq_take take_all_iff order_refl)
  then show "\<not> P (s ! length (takeWhile P s))" by (rule nth_length_takeWhile)
qed

lemma validate_rejects_disallowed:
  assumes "s \<noteq> []" and "length s \<le> 100" and "\<not> list_all in_class s"
    and "\<not> (list_all in_class (butlast s) \<and> butlast s \<noteq> [] \<and> last s = CHR 0x0A)"
  shows "validate_repo_name s = Inl (ValidationError msg_characters)"
proof -
  define n where "n = length (takeWhile in_class s)"
  have lt: "n < length s" and bad: "\<not> in_class (s ! n)"
    using takeWhile_short [OF assms(3)] by (simp_all add: n_def)
  have "\<not> re_match_REPO_NAME_PATTERN s"
  proof
    assume "re_match_REPO_NAME_PATTERN s"
    with lt have n1: "1 \<le> n" and sn: "Suc n = length s" and nl: "s ! n = CHR 0x0A"
      by (auto simp: re_match_iff n_def Let_def)
    from sn have "length s - 1 = n" by simp
    then have bl: "butlast s = take n s" by (simp add: butlast_conv_take)
    have "take n s = takeWhile in_class s"
      unfolding n_def by (rule takeWhile_eq_take [symmetric])
    then have "list_all in_class (butlast s)"
      by (metis bl list_all_iff set_takeWhileD)
    moreover from n1 sn bl have "butlast s \<noteq> []" by auto
    moreover from \<open>length s - 1 = n\<close> nl assms(1) have "last s = CHR 0x0A"
      by (simp add: last_conv_nth)
    ultimately show False using assms(4) by blast
  qed
  with assms(1,2) show ?thesis by (simp add: validate_cases)
qed

text \<open>
  C2. A non-empty string of at most 100 characters that contains a character outside
  \<^verbatim>\<open>[A-Za-z0-9_.-]\<close> should make \<^verbatim>\<open>_validate_repo_name\<close> raise the error about
  disallowed characters. The lemma above shows that it does, except when the only such
  character is a newline that ends the string. At that input the code returns normally:
  \<^verbatim>\<open>$\<close> matches before the final newline, so \<^verbatim>\<open>re.match\<close> with this pattern is not a
  match of the whole string. Evaluated here at the name \<^verbatim>\<open>my-repo\<close> followed by a
  newline.
\<close>

theorem validate_accepts_trailing_newline:
  "validate_repo_name (''my-repo'' @ [CHR 0x0A]) = Inr () \<and>
   \<not> in_class (last (''my-repo'' @ [CHR 0x0A])) \<and>
   length (''my-repo'' @ [CHR 0x0A]) \<le> 100"
  by (simp add: validate_cases re_match_iff in_class_def)

text \<open>
  C3. The checks of \<^verbatim>\<open>_validate_repo_name\<close> run in the order empty, length, character
  set, boundary characters, and the error raised is that of the first check that fails:
  an empty name gives the emptiness error; a non-empty name longer than 100 gives the
  length error whatever its characters; a name within the length that the pattern does
  not match gives the character error whatever its first and last characters; only a
  name that passed these three reaches the boundary check, whose indexing then succeeds
  (it yields the first and the last character), although on the empty string the same
  indexing raises \<^verbatim>\<open>IndexError\<close>. So \<^verbatim>\<open>_validate_repo_name\<close> never raises
  \<^verbatim>\<open>IndexError\<close>.
\<close>

theorem validate_check_order:
  "(s = [] \<longrightarrow> validate_repo_name s = Inl (ValidationError msg_empty)) \<and>
   (s \<noteq> [] \<and> length s > 100 \<longrightarrow>
      validate_repo_name s = Inl (ValidationError (msg_too_long s))) \<and>
   (s \<noteq> [] \<and> length s \<le> 100 \<and> \<not> re_match_REPO_NAME_PATTERN s \<longrightarrow>
      validate_repo_name s = Inl (ValidationError msg_characters)) \<and>
   (s \<noteq> [] \<and> length s \<le> 100 \<and> re_match_REPO_NAME_PATTERN s \<longrightarrow>
      boundary_check s = Inr (hd s = CHR ''-'' \<or> last s = CHR ''.'') \<and>
      validate_repo_name s =
        (if hd s = CHR ''-'' \<or> last s = CHR ''.'' then Inl (ValidationError msg_boundary)
         else Inr ())) \<and>
   boundary_check [] = Inl IndexError \<and>
   validate_repo_name s \<noteq> Inl IndexError"
  by (simp add: validate_cases boundary_check_nonempty boundary_check_empty)

theorem validate_check_order_witness:
  "validate_repo_name [] = Inl (ValidationError msg_empty) \<and>
   validate_repo_name (replicate 101 (CHR ''/'')) =
     Inl (ValidationError
            ''Repository name cannot exceed 100 characters. Got 101 characters.'') \<and>
   validate_repo_name ''-bad name.'' = Inl (ValidationError msg_characters) \<and>
   validate_repo_name ''-startswithdash'' = Inl (ValidationError msg_boundary)"
  using validate_check_order [of "[]"] validate_check_order [of "replicate 101 (CHR ''/'')"]
    validate_check_order [of "''-bad name.''"] validate_check_order [of "''-startswithdash''"]
  by (simp add: re_match_iff in_class_def msg_too_long_def MAX_REPO_NAME_LENGTH_def
      digit_char_def)

section \<open>Properties of the constructor\<close>

text \<open>
  C4. When the explicit token is missing or empty and the configured token is missing or
  empty too, the constructor raises \<^verbatim>\<open>ValidationError\<close> and issues no request.
\<close>

theorem init_without_token:
  "\<not> truthy token \<Longrightarrow> \<not> truthy (GITHUB_TOKEN cfg) \<Longrightarrow>
     init cfg net token base_url = (Inl (ValidationError msg_token_required), [])"
  by (simp add: init_def py_or_def)

theorem init_without_token_witness:
  "\<not> truthy (Some []) \<and>
   \<not> truthy (GITHUB_TOKEN \<lparr>GITHUB_TOKEN = None, BASE_URL = Some ''https://api.github.com''\<rparr>) \<and>
   init \<lparr>GITHUB_TOKEN = None, BASE_URL = Some ''https://api.github.com''\<rparr>
     (answers (Raises ''unreachable'' None)) (Some []) None
     = (Inl (ValidationError msg_token_required), [])"
  using init_without_token [of "Some []"
      "\<lparr>GITHUB_TOKEN = None, BASE_URL = Some ''https://api.github.com''\<rparr>"
      "answers (Raises ''unreachable'' None)" None]
  by simp

text \<open>
  C5. When a token is resolved and the identity endpoint answers the probe with status
  401, the constructor raises \<^verbatim>\<open>GitHubAPIError\<close> with status code 401 and the message
  \<^verbatim>\<open>Invalid GitHub token. Please check your credentials.\<close>, after that one request.
\<close>

theorem init_unauthorized:
  assumes "truthy (py_or token (GITHUB_TOKEN cfg))"
    and "net (user_request (py_or token (GITHUB_TOKEN cfg)) (py_or base_url (BASE_URL cfg)))
           = Returns r"
    and "status_code r = 401"
  shows "init cfg net token base_url =
           (Inl (GitHubAPIError msg_invalid_token (Some 401)),
            [user_request (py_or token (GITHUB_TOKEN cfg)) (py_or base_url (BASE_URL cfg))])"
  using assms by (simp add: init_def send_def init_handler_def Let_def)

theorem init_unauthorized_witness:
  "init \<lparr>GITHUB_TOKEN = None, BASE_URL = Some ''https://api.github.com''\<rparr>
     (answers (Returns \<lparr>status_code = 401, http_error_text = ''401 Client Error'',
                        json = Decoded_dict [(''message'', PStr ''Bad credentials'')]\<rparr>))
     (Some ''invalid-token-123'') None
   = (Inl (GitHubAPIError ''Invalid GitHub token. Please check your credentials.'' (Some 401)),
      [\<lparr>verb = GET, url = ''https://api.github.com/user'',
        headers = [(''Authorization'', ''token invalid-token-123''),
                   (''Accept'', ''application/vnd.github.v3+json'')],
        json_payload = None, timeout = 10\<rparr>])"
  using init_unauthorized [of "Some ''invalid-token-123''"
      "\<lparr>GITHUB_TOKEN = None, BASE_URL = Some ''https://api.github.com''\<rparr>"
      "answers (Returns \<lparr>status_code = 401, http_error_text = ''401 Client Error'',
                        json = Decoded_dict [(''message'', PStr ''Bad credentials'')]\<rparr>)"
      None]
  by (simp add: py_or_def user_request_def make_headers_def msg_invalid_token_def answers_def)

lemma py_or_empty [simp]: "py_or (Some []) d = d" "py_or None d = d"
  by (simp_all add: py_or_def)

lemma py_or_truthy: "truthy a \<Longrightarrow> py_or a b = a"
  by (simp add: py_or_def)

lemma py_or_Some: "py_or (Some t) d = (if t \<noteq> [] then Some t else d)"
  by (simp add: py_or_def)

lemma init_success_fields:
  "fst (init cfg net token base_url) = Inr c \<Longrightarrow>
     self_token c = py_or token (GITHUB_TOKEN cfg) \<and>
     self_base_url c = py_or base_url (BASE_URL cfg)"
  by (auto simp: init_def Let_def split: if_splits sum.splits prod.splits json_result.splits
      option.splits raised.splits)

lemma init_resolved_token:
  "truthy (py_or token (GITHUB_TOKEN cfg)) \<Longrightarrow>
     (\<forall>m. fst (init cfg net token base_url) \<noteq> Inl (ValidationError m)) \<and>
     snd (init cfg net token base_url)
       = [user_request (py_or token (GITHUB_TOKEN cfg)) (py_or base_url (BASE_URL cfg))]"
  by (auto simp: init_def Let_def init_handler_def
      split: sum.splits prod.splits json_result.splits option.splits raised.splits)

lemma init_success:
  assumes "truthy (py_or token (GITHUB_TOKEN cfg))"
    and "net (user_request (py_or token (GITHUB_TOKEN cfg)) (py_or base_url (BASE_URL cfg)))
           = Returns r"
    and "status_code r < 400" and "json r = Decoded_dict kvs"
    and "map_of kvs ''login'' = Some v"
  shows "fst (init cfg net token base_url)
           = Inr \<lparr>self_token = py_or token (GITHUB_TOKEN cfg),
                  self_base_url = py_or base_url (BASE_URL cfg),
                  self_headers = make_headers (py_or token (GITHUB_TOKEN cfg)),
                  self_username = v\<rparr>"
  using assms by (simp add: init_def send_def Let_def)

text \<open>
  C10. An explicit empty token does not make the constructor fail when the configured
  token is not empty: the constructor behaves exactly as if no token, or the configured
  token itself, had been passed; it raises no \<^verbatim>\<open>ValidationError\<close>, sends the probe with the
  configured token, and when the probe is answered with a status below 400 and a JSON
  object holding \<^verbatim>\<open>login\<close> it returns a client that holds the configured token. The same
  holds for an explicit empty base URL and the configured base URL. In a constructed
  client, an explicit token or base URL is the one in use exactly when it is not empty;
  otherwise the configured one is.
\<close>

theorem empty_argument_falls_back:
  "(truthy (GITHUB_TOKEN cfg) \<longrightarrow>
      init cfg net (Some []) base_url = init cfg net None base_url \<and>
      init cfg net (Some []) base_url = init cfg net (GITHUB_TOKEN cfg) base_url \<and>
      (\<forall>m. fst (init cfg net (Some []) base_url) \<noteq> Inl (ValidationError m)) \<and>
      snd (init cfg net (Some []) base_url)
        = [user_request (GITHUB_TOKEN cfg) (py_or base_url (BASE_URL cfg))] \<and>
      (\<forall>c. fst (init cfg net (Some []) base_url) = Inr c \<longrightarrow> self_token c = GITHUB_TOKEN cfg)) \<and>
   (truthy (BASE_URL cfg) \<longrightarrow>
      init cfg net token (Some []) = init cfg net token None \<and>
      init cfg net token (Some []) = init cfg net token (BASE_URL cfg) \<and>
      (\<forall>c. fst (init cfg net token (Some [])) = Inr c \<longrightarrow> self_base_url c = BASE_URL cfg)) \<and>
   (\<forall>c t b. fst (init cfg net (Some t) (Some b)) = Inr c \<longrightarrow>
      self_token c = (if t \<noteq> [] then Some t else GITHUB_TOKEN cfg) \<and>
      self_base_url c = (if b \<noteq> [] then Some b else BASE_URL cfg)) \<and>
   (\<forall>r kvs v. truthy (GITHUB_TOKEN cfg) \<and>
      net (user_request (GITHUB_TOKEN cfg) (py_or base_url (BASE_URL cfg))) = Returns r \<and>
      status_code r < 400 \<and> json r = Decoded_dict kvs \<and> map_of kvs ''login'' = Some v \<longrightarrow>
      fst (init cfg net (Some []) base_url)
        = Inr \<lparr>self_token = GITHUB_TOKEN cfg, self_base_url = py_or base_url (BASE_URL cfg),
               self_headers = make_headers (GITHUB_TOKEN cfg), self_username = v\<rparr>)"
proof (intro conjI impI allI)
  show "init cfg net (Some []) base_url = init cfg net None base_url"
    by (simp add: init_def)
next
  assume "truthy (GITHUB_TOKEN cfg)"
  then show "init cfg net (Some []) base_url = init cfg net (GITHUB_TOKEN cfg) base_url"
    by (simp add: init_def py_or_truthy)
next
  fix m assume "truthy (GITHUB_TOKEN cfg)"
  then show "fst (init cfg net (Some []) base_url) \<noteq> Inl (ValidationError m)"
    using init_resolved_token [of "Some []" cfg net base_url] by simp
next
  assume "truthy (GITHUB_TOKEN cfg)"
  then show "snd (init cfg net (Some []) base_url)
      = [user_request (GITHUB_TOKEN cfg) (py_or base_url (BASE_URL cfg))]"
    using init_resolved_token [of "Some []" cfg net base_url] by simp
next
  fix c assume "fst (init cfg net (Some []) base_url) = Inr c"
  then show "self_token c = GITHUB_TOKEN cfg"
    using init_success_fields [of cfg net "Some []" base_url c] by simp
next
  show "init cfg net token (Some []) = init cfg net token None"
    by (simp add: init_def)
next
  assume "truthy (BASE_URL cfg)"
  then show "init cfg net token (Some []) = init cfg net token (BASE_URL cfg)"
    by (simp add: init_def py_or_truthy)
next
  fix c assume "fst (init cfg net token (Some [])) = Inr c"
  then show "self_base_url c = BASE_URL cfg"
    using init_success_fields [of cfg net token "Some []" c] by simp
next
  fix c t b assume "fst (init cfg net (Some t) (Some b)) = Inr c"
  then show "self_token c = (if t \<noteq> [] then Some t else GITHUB_TOKEN cfg)"
    using init_success_fields [of cfg net "Some t" "Some b" c] by (simp add: py_or_Some)
next
  fix c t b assume "fst (init cfg net (Some t) (Some b)) = Inr c"
  then show "self_base_url c = (if b \<noteq> [] then Some b else BASE_URL cfg)"
    using init_success_fields [of cfg net "Some t" "Some b" c] by (simp add: py_or_Some)
next
  fix r kvs v
  assume "truthy (GITHUB_TOKEN cfg) \<and>
      net (user_request (GITHUB_TOKEN cfg) (py_or base_url (BASE_URL cfg))) = Returns r \<and>
      status_code r < 400 \<and> json r = Decoded_dict kvs \<and> map_of kvs ''login'' = Some v"
  then show "fst (init cfg net (Some []) base_url)
        = Inr \<lparr>self_token = GITHUB_TOKEN cfg, self_base_url = py_or base_url (BASE_URL cfg),
               self_headers = make_headers (GITHUB_TOKEN cfg), self_username = v\<rparr>"
    using init_success [of "Some []" cfg net base_url r kvs v] by simp
qed

theorem empty_argument_falls_back_witness:
  "truthy (GITHUB_TOKEN \<lparr>GITHUB_TOKEN = Some ''cfg-token'',
                          BASE_URL = Some ''https://api.github.com''\<rparr>) \<and>
   init \<lparr>GITHUB_TOKEN = Some ''cfg-token'', BASE_URL = Some ''https://api.github.com''\<rparr>
     (answers (Returns \<lparr>status_code = 200, http_error_text = [],
                        json = Decoded_dict [(''login'', PStr ''octocat'')]\<rparr>))
     (Some []) (Some [])
   = (Inr \<lparr>self_token = Some ''cfg-token'', self_base_url = Some ''https://api.github.com'',
           self_headers = [(''Authorization'', ''token cfg-token''),
                           (''Accept'', ''application/vnd.github.v3+json'')],
           self_username = PStr ''octocat''\<rparr>,
      [\<lparr>verb = GET, url = ''https://api.github.com/user'',
        headers = [(''Authorization'', ''token cfg-token''),
                   (''Accept'', ''application/vnd.github.v3+json'')],
        json_payload = None, timeout = 10\<rparr>])"
  using empty_argument_falls_back
    [of "\<lparr>GITHUB_TOKEN = Some ''cfg-token'', BASE_URL = Some ''https://api.github.com''\<rparr>"
        "answers (Returns \<lparr>status_code = 200, http_error_text = [],
                        json = Decoded_dict [(''login'', PStr ''octocat'')]\<rparr>)"
        "Some []" "Some []"]
  by (simp add: answers_def user_request_def make_headers_def init_def send_def py_or_def
      Let_def)

section \<open>Properties of the four operations\<close>

lemma validation_error_cases: "is_validation_error e \<Longrightarrow> \<exists>m. e = ValidationError m"
  by (cases e) simp_all

lemma validate_fails_with: "validate_repo_name s = Inl e \<Longrightarrow> \<exists>m. e = ValidationError m"
  by (rule validation_error_cases) (rule validate_error_kind)

lemma create_repo_invalid_name:
  "validate_repo_name n = Inl e \<Longrightarrow> create_repo self net n d p = (Inl e, [])"
  by (simp add: create_repo_def)

lemma get_repo_invalid_name:
  "validate_repo_name n = Inl e \<Longrightarrow> get_repo self net n = (Inl e, [])"
  by (simp add: get_repo_def)

lemma update_repo_invalid_name:
  "validate_repo_name n = Inl e \<Longrightarrow> update_repo self net n d = (Inl e, [])"
  by (simp add: update_repo_def)

lemma delete_repo_invalid_name:
  "validate_repo_name n = Inl e \<Longrightarrow> delete_repo self net n = (Inl e, [])"
  by (simp add: delete_repo_def)

lemma create_repo_bad_description:
  "\<not> isinstance_str d \<Longrightarrow> \<exists>m. create_repo self net n d p = (Inl (ValidationError m), [])"
  by (cases "validate_repo_name n")
     (auto simp: create_repo_def dest: validate_fails_with)

lemma update_repo_bad_description:
  "\<not> isinstance_str d \<Longrightarrow> \<exists>m. update_repo self net n d = (Inl (ValidationError m), [])"
  by (cases "validate_repo_name n")
     (auto simp: update_repo_def dest: validate_fails_with)

lemma create_handler_not_validation: "\<not> is_validation_error (create_handler m r)"
  by (auto simp: create_handler_def Let_def split: option.splits json_result.splits)

lemma create_repo_validation_no_request:
  "fst (create_repo self net n d p) = Inl (ValidationError m) \<Longrightarrow>
     snd (create_repo self net n d p) = []"
proof (cases "validate_repo_name n")
  case (Inl e)
  then show ?thesis by (simp add: create_repo_def)
next
  case (Inr u)
  assume f: "fst (create_repo self net n d p) = Inl (ValidationError m)"
  show ?thesis
  proof (cases "isinstance_str d")
    case False
    with Inr show ?thesis by (simp add: create_repo_def)
  next
    case True
    show ?thesis
    proof (cases "send net (create_request self n d p)")
      case (Inl x)
      show ?thesis
      proof (cases x)
        case (RequestException m' r)
        with Inr True Inl f have "create_handler m' r = ValidationError m"
          by (simp add: create_repo_def Let_def)
        with create_handler_not_validation [of m' r] show ?thesis by simp
      next
        case (NotRequestException c)
        with Inr True Inl f show ?thesis by (simp add: create_repo_def Let_def)
      qed
    next
      case (Inr resp)
      with \<open>validate_repo_name n = Inr u\<close> True f show ?thesis
        by (simp add: create_repo_def Let_def)
    qed
  qed
qed

lemma get_repo_validation_no_request:
  "fst (get_repo self net n) = Inl (ValidationError m) \<Longrightarrow> snd (get_repo self net n) = []"
  by (auto simp: get_repo_def Let_def split: sum.splits prod.splits raised.splits)

lemma update_repo_validation_no_request:
  "fst (update_repo self net n d) = Inl (ValidationError m) \<Longrightarrow>
     snd (update_repo self net n d) = []"
  by (auto simp: update_repo_def Let_def split: sum.splits if_splits prod.splits raised.splits)

lemma delete_repo_validation_no_request:
  "fst (delete_repo self net n) = Inl (ValidationError m) \<Longrightarrow>
     snd (delete_repo self net n) = []"
  by (auto simp: delete_repo_def Let_def split: sum.splits prod.splits raised.splits)

text \<open>
  C7. In \<^verbatim>\<open>create_repo\<close>, \<^verbatim>\<open>get_repo\<close>, \<^verbatim>\<open>update_repo\<close> and \<^verbatim>\<open>delete_repo\<close>, a
  failure of name validation is a \<^verbatim>\<open>ValidationError\<close>, it is what the operation raises,
  and no request is issued; a description that is not a string makes \<^verbatim>\<open>create_repo\<close> and
  \<^verbatim>\<open>update_repo\<close> raise a \<^verbatim>\<open>ValidationError\<close> with no request issued; and whenever one
  of the four operations raises a \<^verbatim>\<open>ValidationError\<close>, it has issued no request.
\<close>

theorem validation_failures_precede_requests:
  "(\<forall>e. validate_repo_name n = Inl e \<longrightarrow>
      (\<exists>m. e = ValidationError m) \<and>
      create_repo self net n d p = (Inl e, []) \<and>
      get_repo self net n = (Inl e, []) \<and>
      update_repo self net n d = (Inl e, []) \<and>
      delete_repo self net n = (Inl e, [])) \<and>
   (\<not> isinstance_str d \<longrightarrow>
      (\<exists>m. create_repo self net n d p = (Inl (ValidationError m), [])) \<and>
      (\<exists>m. update_repo self net n d = (Inl (ValidationError m), []))) \<and>
   (\<forall>m. (fst (create_repo self net n d p) = Inl (ValidationError m) \<longrightarrow>
           snd (create_repo self net n d p) = []) \<and>
        (fst (get_repo self net n) = Inl (ValidationError m) \<longrightarrow>
           snd (get_repo self net n) = []) \<and>
        (fst (update_repo self net n d) = Inl (ValidationError m) \<longrightarrow>
           snd (update_repo self net n d) = []) \<and>
        (fst (delete_repo self net n) = Inl (ValidationError m) \<longrightarrow>
           snd (delete_repo self net n) = []))"
proof (intro conjI allI impI)
  fix e assume "validate_repo_name n = Inl e"
  then show "\<exists>m. e = ValidationError m" by (rule validate_fails_with)
next
  fix e assume "validate_repo_name n = Inl e"
  then show "create_repo self net n d p = (Inl e, [])" by (rule create_repo_invalid_name)
next
  fix e assume "validate_repo_name n = Inl e"
  then show "get_repo self net n = (Inl e, [])" by (rule get_repo_invalid_name)
next
  fix e assume "validate_repo_name n = Inl e"
  then show "update_repo self net n d = (Inl e, [])" by (rule update_repo_invalid_name)
next
  fix e assume "validate_repo_name n = Inl e"
  then show "delete_repo self net n = (Inl e, [])" by (rule delete_repo_invalid_name)
next
  assume "\<not> isinstance_str d"
  then show "\<exists>m. create_repo self net n d p = (Inl (ValidationError m), [])"
    by (rule create_repo_bad_description)
next
  assume "\<not> isinstance_str d"
  then show "\<exists>m. update_repo self net n d = (Inl (ValidationError m), [])"
    by (rule update_repo_bad_description)
next
  fix m assume "fst (create_repo self net n d p) = Inl (ValidationError m)"
  then show "snd (create_repo self net n d p) = []" by (rule create_repo_validation_no_request)
next
  fix m assume "fst (get_repo self net n) = Inl (ValidationError m)"
  then show "snd (get_repo self net n) = []" by (rule get_repo_validation_no_request)
next
  fix m assume "fst (update_repo self net n d) = Inl (ValidationError m)"
  then show "snd (update_repo self net n d) = []" by (rule update_repo_validation_no_request)
next
  fix m assume "fst (delete_repo self net n) = Inl (ValidationError m)"
  then show "snd (delete_repo self net n) = []" by (rule delete_repo_validation_no_request)
qed

theorem validation_failures_precede_requests_witness:
  "create_repo \<lparr>self_token = Some ''t'', self_base_url = Some ''https://api.github.com'',
       self_headers = make_headers (Some ''t''), self_username = PStr ''octocat''\<rparr>
     (answers (Raises ''unreachable'' None)) ''has space'' (PInt 5) False
     = (Inl (ValidationError msg_characters), []) \<and>
   delete_repo \<lparr>self_token = Some ''t'', self_base_url = Some ''https://api.github.com'',
       self_headers = make_headers (Some ''t''), self_username = PStr ''octocat''\<rparr>
     (answers (Raises ''unreachable'' None)) ''has space''
     = (Inl (ValidationError msg_characters), []) \<and>
   (\<exists>m. update_repo \<lparr>self_token = Some ''t'', self_base_url = Some ''https://api.github.com'',
       self_headers = make_headers (Some ''t''), self_username = PStr ''octocat''\<rparr>
     (answers (Raises ''unreachable'' None)) ''has space'' (PInt 5)
     = (Inl (ValidationError m), []))"
proof -
  have v: "validate_repo_name ''has space'' = Inl (ValidationError msg_characters)"
    by (simp add: validate_cases re_match_iff in_class_def)
  have d: "\<not> isinstance_str (PInt 5)" by simp
  show ?thesis
    using validation_failures_precede_requests
      [of "''has space''"
        "\<lparr>self_token = Some ''t'', self_base_url = Some ''https://api.github.com'',
          self_headers = make_headers (Some ''t''), self_username = PStr ''octocat''\<rparr>"
        "answers (Raises ''unreachable'' None)" "PInt 5" False] v d
    by blast
qed

text \<open>
  C8. A call of \<^verbatim>\<open>create_repo\<close> whose name passes validation and whose description is a
  string sends exactly one request, and it is this one: a POST to
  \<^verbatim>\<open>{base_url}/user/repos\<close> with the client's headers, timeout 10 and the JSON body
  \<^verbatim>\<open>name\<close>, \<^verbatim>\<open>description\<close>, \<^verbatim>\<open>private\<close> as passed and \<^verbatim>\<open>auto_init\<close> false. What the
  call returns is what the service does with exactly that request: a response with a
  status outside 400 to 599 is returned as it is, and a transport failure is raised as a
  \<^verbatim>\<open>GitHubAPIError\<close> with its text and no status.
\<close>

theorem create_repo_request_body:
  assumes "validate_repo_name repo_name = Inr ()" and "description = PStr d"
  shows
    "(let rq = \<lparr>verb = POST, url = str_opt (self_base_url self) @ ''/user/repos'',
                headers = self_headers self,
                json_payload = Some [(''name'', PStr repo_name), (''description'', PStr d),
                                     (''private'', PBool private),
                                     (''auto_init'', PBool False)],
                timeout = 10\<rparr>
      in snd (create_repo self net repo_name description private) = [rq] \<and>
         (\<forall>r. net rq = Returns r \<and> (status_code r < 400 \<or> 600 \<le> status_code r) \<longrightarrow>
              fst (create_repo self net repo_name description private) = Inr r) \<and>
         (\<forall>m. net rq = Raises m None \<longrightarrow>
              fst (create_repo self net repo_name description private)
                = Inl (GitHubAPIError (''Failed to create repository: '' @ m) None)))"
  using assms
  by (auto simp: create_repo_def create_request_def create_handler_def send_def Let_def)

theorem create_repo_request_body_witness:
  "validate_repo_name ''my-repo'' = Inr () \<and>
   create_repo
     \<lparr>self_token = Some ''t'', self_base_url = Some ''https://api.github.com'',
       self_headers = make_headers (Some ''t''), self_username = PStr ''octocat''\<rparr>
     (answers_only
        \<lparr>verb = POST, url = ''https://api.github.com/user/repos'',
          headers = make_headers (Some ''t''),
          json_payload = Some [(''name'', PStr ''my-repo''), (''description'', PStr ''demo''),
                               (''private'', PBool True), (''auto_init'', PBool False)],
          timeout = 10\<rparr>
        (Returns \<lparr>status_code = 201, http_error_text = [],
                   json = Decoded_dict [(''name'', PStr ''my-repo'')]\<rparr>)
        (Raises ''no such endpoint'' None))
     ''my-repo'' (PStr ''demo'') True
   = (Inr \<lparr>status_code = 201, http_error_text = [],
           json = Decoded_dict [(''name'', PStr ''my-repo'')]\<rparr>,
      [\<lparr>verb = POST, url = ''https://api.github.com/user/repos'',
        headers = make_headers (Some ''t''),
        json_payload = Some [(''name'', PStr ''my-repo''), (''description'', PStr ''demo''),
                             (''private'', PBool True), (''auto_init'', PBool False)],
        timeout = 10\<rparr>])"
proof -
  have v: "validate_repo_name ''my-repo'' = Inr ()"
    by (simp add: validate_cases re_match_iff in_class_def)
  show ?thesis
    using create_repo_request_body [OF v, of "PStr ''demo''" "''demo''"
        "\<lparr>self_token = Some ''t'', self_base_url = Some ''https://api.github.com'',
          self_headers = make_headers (Some ''t''), self_username = PStr ''octocat''\<rparr>"
        True
        "answers_only
           \<lparr>verb = POST, url = ''https://api.github.com/user/repos'',
             headers = make_headers (Some ''t''),
             json_payload = Some [(''name'', PStr ''my-repo''),
                                  (''description'', PStr ''demo''),
                                  (''private'', PBool True), (''auto_init'', PBool False)],
             timeout = 10\<rparr>
           (Returns \<lparr>status_code = 201, http_error_text = [],
                      json = Decoded_dict [(''name'', PStr ''my-repo'')]\<rparr>)
           (Raises ''no such endpoint'' None)"] v
    by (simp add: answers_only_def Let_def prod_eq_iff)
qed

text \<open>
  What \<^verbatim>\<open>create_repo\<close> does with a failed request. On status 422 with a payload that is
  a JSON object, it raises \<^verbatim>\<open>GitHubAPIError\<close> with status 422 and the payload's
  \<^verbatim>\<open>message\<close>, or \<^verbatim>\<open>Validation failed\<close> when the object has no such field. On any other
  failure caught by the handler it raises \<^verbatim>\<open>GitHubAPIError\<close> with the text of the
  exception and the status it found.
\<close>

lemma create_repo_422_dict:
  assumes "validate_repo_name repo_name = Inr ()" and "isinstance_str description"
    and "send net (create_request self repo_name description private)
           = Inl (RequestException m (Some r))"
    and "status_code r = 422" and "json r = Decoded_dict kvs"
  shows "create_repo self net repo_name description private =
           (Inl (GitHubAPIError
                   (''Failed to create repository: '' @
                      (case map_of kvs ''message'' of
                         None \<Rightarrow> ''Validation failed''
                       | Some v \<Rightarrow> py_str v))
                   (Some 422)),
            [create_request self repo_name description private])"
  using assms
  by (simp add: create_repo_def create_handler_def Let_def split: option.splits)

lemma create_repo_other_status:
  assumes "validate_repo_name repo_name = Inr ()" and "isinstance_str description"
    and "send net (create_request self repo_name description private)
           = Inl (RequestException m r)"
    and "status_of r \<noteq> Some 422"
  shows "create_repo self net repo_name description private =
           (Inl (GitHubAPIError (''Failed to create repository: '' @ m) (status_of r)),
            [create_request self repo_name description private])"
  using assms
  by (simp add: create_repo_def create_handler_def Let_def)

text \<open>
  C6. On status 422, \<^verbatim>\<open>create_repo\<close> should raise \<^verbatim>\<open>GitHubAPIError\<close> with status 422,
  with the payload's \<^verbatim>\<open>message\<close> or the fallback text. When the payload of the 422 answer
  is not a JSON object, the code does not: \<^verbatim>\<open>e.response.json()\<close> raises inside the
  handler for a body that is not JSON, and \<^verbatim>\<open>.get\<close> raises \<^verbatim>\<open>AttributeError\<close> for a JSON
  value that is not an object. Evaluated here for both answers.
\<close>

theorem create_repo_422_undecodable_payload:
  "fst (create_repo
     \<lparr>self_token = Some ''t'', self_base_url = Some ''https://api.github.com'',
       self_headers = make_headers (Some ''t''), self_username = PStr ''octocat''\<rparr>
     (answers (Returns \<lparr>status_code = 422, http_error_text = ''422 Client Error'',
                        json = Decode_RequestException ''Expecting value''\<rparr>))
     ''my-repo'' (PStr []) False)
   = Inl (JSONDecodeError ''Expecting value'') \<and>
   fst (create_repo
     \<lparr>self_token = Some ''t'', self_base_url = Some ''https://api.github.com'',
       self_headers = make_headers (Some ''t''), self_username = PStr ''octocat''\<rparr>
     (answers (Returns \<lparr>status_code = 422, http_error_text = ''422 Client Error'',
                        json = Decoded_other\<rparr>))
     ''my-repo'' (PStr []) False)
   = Inl AttributeError"
  by (simp add: create_repo_def validate_cases re_match_iff in_class_def send_def
      create_handler_def Let_def answers_def)

section \<open>The kinds of failure\<close>

text \<open>
  The extent of the conversion to the client's two kinds. When the calls of the library
  raise nothing but \<^verbatim>\<open>RequestException\<close>, every failure of \<^verbatim>\<open>get_repo\<close>, \<^verbatim>\<open>update_repo\<close>
  and \<^verbatim>\<open>delete_repo\<close> is a \<^verbatim>\<open>ValidationError\<close> or a \<^verbatim>\<open>GitHubAPIError\<close>; so is every
  failure of \<^verbatim>\<open>create_repo\<close> when moreover the payload of a 422 answer is a JSON object,
  and every failure of the constructor when moreover the payload of an identity answer
  that passed \<^verbatim>\<open>raise_for_status\<close> is a JSON object with a \<^verbatim>\<open>login\<close> field or fails to
  decode with a \<^verbatim>\<open>RequestException\<close>. Outside these conditions other exceptions leave
  the client.
\<close>

lemma init_handler_kind: "is_repo_client_error (init_handler m r)"
  by (simp add: init_handler_def is_repo_client_error_def Let_def)

lemma send_no_other:
  "\<forall>rq c. net rq \<noteq> Raises_other c \<Longrightarrow> send net rq \<noteq> Inl (NotRequestException c)"
  by (auto simp: send_def split: outcome.splits)

lemma get_repo_failure_kind:
  assumes "\<forall>rq c. net rq \<noteq> Raises_other c" and "fst (get_repo self net n) = Inl e"
  shows "is_repo_client_error e"
  using assms(2) send_no_other [OF assms(1)]
  by (auto simp: get_repo_def Let_def is_repo_client_error_def
      split: sum.splits prod.splits raised.splits dest: validate_error_kind)

lemma update_repo_failure_kind:
  assumes "\<forall>rq c. net rq \<noteq> Raises_other c" and "fst (update_repo self net n d) = Inl e"
  shows "is_repo_client_error e"
  using assms(2) send_no_other [OF assms(1)]
  by (auto simp: update_repo_def Let_def is_repo_client_error_def
      split: sum.splits prod.splits if_splits raised.splits dest: validate_error_kind)

lemma delete_repo_failure_kind:
  assumes "\<forall>rq c. net rq \<noteq> Raises_other c" and "fst (delete_repo self net n) = Inl e"
  shows "is_repo_client_error e"
  using assms(2) send_no_other [OF assms(1)]
  by (auto simp: delete_repo_def Let_def is_repo_client_error_def
      split: sum.splits prod.splits raised.splits dest: validate_error_kind)

lemma create_handler_kind:
  assumes "\<And>resp. r = Some resp \<Longrightarrow> status_code resp = 422 \<Longrightarrow> is_json_object (json resp)"
  shows "is_repo_client_error (create_handler m r)"
proof (cases "status_of r = Some 422")
  case False
  then show ?thesis by (simp add: create_handler_def is_repo_client_error_def Let_def)
next
  case True
  then obtain resp where r: "r = Some resp" and st: "status_code resp = 422"
    by (cases r) auto
  from assms [OF r st] obtain kvs where "json resp = Decoded_dict kvs"
    by (cases "json resp") auto
  with r st show ?thesis by (simp add: create_handler_def is_repo_client_error_def Let_def)
qed

lemma create_repo_failure_kind:
  assumes "\<forall>rq c. net rq \<noteq> Raises_other c"
    and "\<forall>m r. send net (create_request self n d p) = Inl (RequestException m (Some r))
                 \<and> status_code r = 422
             \<longrightarrow> is_json_object (json r)"
    and "fst (create_repo self net n d p) = Inl e"
  shows "is_repo_client_error e"
proof (cases "validate_repo_name n")
  case (Inl e')
  with assms(3) have "e = e'" by (simp add: create_repo_def)
  with Inl show ?thesis by (auto simp: is_repo_client_error_def dest: validate_error_kind)
next
  case (Inr u)
  show ?thesis
  proof (cases "isinstance_str d")
    case False
    with Inr assms(3) show ?thesis by (auto simp: create_repo_def is_repo_client_error_def)
  next
    case True
    show ?thesis
    proof (cases "send net (create_request self n d p)")
      case (Inl x)
      show ?thesis
      proof (cases x)
        case (RequestException m r)
        have "is_repo_client_error (create_handler m r)"
        proof (rule create_handler_kind)
          fix resp assume "r = Some resp" "status_code resp = 422"
          with Inl RequestException assms(2) show "is_json_object (json resp)" by blast
        qed
        with Inr True Inl RequestException assms(3) show ?thesis
          by (simp add: create_repo_def Let_def)
      next
        case (NotRequestException c)
        with Inl send_no_other [OF assms(1)] show ?thesis by blast
      qed
    next
      case (Inr resp)
      with \<open>validate_repo_name n = Inr u\<close> True assms(3) show ?thesis
        by (simp add: create_repo_def Let_def)
    qed
  qed
qed

lemma init_failure_kind:
  assumes "\<forall>rq c. net rq \<noteq> Raises_other c"
    and "\<forall>r. send net (user_request (py_or token (GITHUB_TOKEN cfg))
                                    (py_or base_url (BASE_URL cfg))) = Inr r
             \<longrightarrow> identity_payload_ok (json r)"
    and "fst (init cfg net token base_url) = Inl e"
  shows "is_repo_client_error e"
proof (cases "truthy (py_or token (GITHUB_TOKEN cfg))")
  case False
  with assms(3) show ?thesis by (auto simp: init_def is_repo_client_error_def)
next
  case True
  let ?rq = "user_request (py_or token (GITHUB_TOKEN cfg)) (py_or base_url (BASE_URL cfg))"
  show ?thesis
  proof (cases "send net ?rq")
    case (Inl x)
    show ?thesis
    proof (cases x)
      case (RequestException m r)
      with True Inl assms(3) have "e = init_handler m r" by (simp add: init_def Let_def)
      then show ?thesis by (simp add: init_handler_kind)
    next
      case (NotRequestException c)
      with Inl send_no_other [OF assms(1)] show ?thesis by blast
    qed
  next
    case (Inr resp)
    with assms(2) have ok: "identity_payload_ok (json resp)" by blast
    show ?thesis
    proof (cases "json resp")
      case (Decoded_dict kvs)
      with ok obtain v where "map_of kvs ''login'' = Some v" by auto
      with True Inr Decoded_dict assms(3) show ?thesis by (simp add: init_def Let_def)
    next
      case Decoded_other
      with ok show ?thesis by simp
    next
      case (Decode_RequestException m)
      with True Inr assms(3) have "e = init_handler m None" by (simp add: init_def Let_def)
      then show ?thesis by (simp add: init_handler_kind)
    next
      case Decode_ValueError
      with ok show ?thesis by simp
    qed
  qed
qed

text \<open>
  C9. Every failure of construction and of the four operations should reach the caller
  as a \<^verbatim>\<open>ValidationError\<close> or a \<^verbatim>\<open>GitHubAPIError\<close>, whatever the remote service
  answers. The code does not achieve this. The constructor reads
  \<^verbatim>\<open>user_response.json()['login']\<close> inside its \<^verbatim>\<open>try\<close> block, whose handler catches
  \<^verbatim>\<open>RequestException\<close> only: with a token and an identity answer of status 200 whose JSON
  object has no \<^verbatim>\<open>login\<close> field, \<^verbatim>\<open>KeyError\<close> leaves the constructor after the one
  request, and with an answer that is a JSON value other than an object, \<^verbatim>\<open>TypeError\<close>
  does. Neither is one of the two kinds. Evaluated here for both answers.
\<close>

theorem init_identity_payload_escapes:
  "init \<lparr>GITHUB_TOKEN = None, BASE_URL = Some ''https://api.github.com''\<rparr>
     (answers (Returns \<lparr>status_code = 200, http_error_text = [],
                        json = Decoded_dict [(''message'', PStr ''ok'')]\<rparr>))
     (Some ''t'') None
   = (Inl (KeyError ''login''),
      [\<lparr>verb = GET, url = ''https://api.github.com/user'',
        headers = [(''Authorization'', ''token t''),
                   (''Accept'', ''application/vnd.github.v3+json'')],
        json_payload = None, timeout = 10\<rparr>]) \<and>
   is_repo_client_error (KeyError ''login'') = False \<and>
   fst (init \<lparr>GITHUB_TOKEN = None, BASE_URL = Some ''https://api.github.com''\<rparr>
          (answers (Returns \<lparr>status_code = 200, http_error_text = [],
                             json = Decoded_other\<rparr>))
          (Some ''t'') None)
     = Inl TypeError \<and>
   is_repo_client_error TypeError = False"
  by (simp add: init_def py_or_def send_def answers_def is_repo_client_error_def Let_def
      user_request_def make_headers_def)

end
